theory Spec2Isabelle
  imports Complex_Main
begin

section \<open>Conventions of the embedding\<close>

text \<open>
  The program is \<^verbatim>\<open>src/engine.py\<close>. Python numbers (prices, quantities, the cash
  balance) are modelled as exact reals; strings are \<open>string\<close>; an object that the
  code mutates in place is a record that the model returns updated; a raised exception
  is the \<open>Inl\<close> branch of a sum. Order objects are shared by reference between the
  caller and the broker's \<open>order_history\<close>, so the broker operates on a store from
  object identities to order records.
\<close>

datatype error =
    ValueError string
  | ImportError string
  | AttributeError string
  | TypeError string

text \<open>
  \<open>str.upper()\<close> and \<open>str.lower()\<close> on ASCII text (a \<open>char\<close> is one byte; other
  characters are left as they are).
\<close>

definition ascii_lower :: string where
  "ascii_lower = ''abcdefghijklmnopqrstuvwxyz''"

definition ascii_upper :: string where
  "ascii_upper = ''ABCDEFGHIJKLMNOPQRSTUVWXYZ''"

definition upper :: "string \<Rightarrow> string" where
  "upper s = map (\<lambda>c. case map_of (zip ascii_lower ascii_upper) c of
                          Some u \<Rightarrow> u | None \<Rightarrow> c) s"

definition lower :: "string \<Rightarrow> string" where
  "lower s = map (\<lambda>c. case map_of (zip ascii_upper ascii_lower) c of
                          Some l \<Rightarrow> l | None \<Rightarrow> c) s"

section \<open>Orders\<close>

text \<open>
  The Python class of an order object decides which \<open>execute\<close> it has: the base class
  \<open>TradeOrder\<close> defines none, \<open>MarketOrder\<close> and \<open>LimitOrder\<close> each define their own.
\<close>

datatype order_class = TradeOrder_class | MarketOrder_class | LimitOrder_class

record TradeOrder =
  order_class :: order_class
  symbol :: string
  side :: string
  quantity :: real
  order_type :: string
  price :: "real option"
  timestamp :: string
  status :: string

text \<open>
  The constructors. The first argument is the wall-clock string that
  \<open>datetime.datetime.now().strftime(...)\<close> yields at construction.
\<close>

definition TradeOrder_init ::
  "string \<Rightarrow> string \<Rightarrow> string \<Rightarrow> real \<Rightarrow> string \<Rightarrow> real option \<Rightarrow> TradeOrder" where
  "TradeOrder_init now symb sd qty otype pr =
     \<lparr> order_class = TradeOrder_class, symbol = upper symb, side = upper sd,
       quantity = qty, order_type = lower otype, price = pr,
       timestamp = now, status = ''pending'' \<rparr>"

definition MarketOrder_init :: "string \<Rightarrow> string \<Rightarrow> string \<Rightarrow> real \<Rightarrow> TradeOrder" where
  "MarketOrder_init now symb sd qty =
     (TradeOrder_init now symb sd qty ''market'' None)\<lparr> order_class := MarketOrder_class \<rparr>"

definition LimitOrder_init ::
  "string \<Rightarrow> string \<Rightarrow> string \<Rightarrow> real \<Rightarrow> real option \<Rightarrow> TradeOrder" where
  "LimitOrder_init now symb sd qty limit_price =
     (TradeOrder_init now symb sd qty ''limit'' limit_price)\<lparr> order_class := LimitOrder_class \<rparr>"

definition cancel :: "TradeOrder \<Rightarrow> TradeOrder" where
  "cancel ord = (if status ord = ''pending'' then ord\<lparr> status := ''cancelled'' \<rparr> else ord)"

text \<open>
  Comparing a number with a price that is \<open>None\<close> raises \<open>TypeError\<close> in Python.
\<close>

definition price_le :: "real \<Rightarrow> real option \<Rightarrow> error + bool" where
  "price_le p limit_price = (case limit_price of
       None \<Rightarrow> Inl (TypeError ''<= not supported between float and NoneType'')
     | Some l \<Rightarrow> Inr (p \<le> l))"

definition price_ge :: "real \<Rightarrow> real option \<Rightarrow> error + bool" where
  "price_ge p limit_price = (case limit_price of
       None \<Rightarrow> Inl (TypeError ''>= not supported between float and NoneType'')
     | Some l \<Rightarrow> Inr (p \<ge> l))"

text \<open>
  \<open>MarketOrder.execute\<close> and \<open>LimitOrder.execute\<close>, dispatched on the class. Every
  exception is raised before the first assignment, so a raising call leaves the order
  as it was. The \<open>and\<close> of the source evaluates its right operand only when the left
  one holds, and the \<open>elif\<close> is reached only when the first condition is false.
\<close>

definition execute :: "TradeOrder \<Rightarrow> real \<Rightarrow> error + TradeOrder" where
  "execute ord market_price = (case order_class ord of
       TradeOrder_class \<Rightarrow> Inl (AttributeError ''TradeOrder object has no attribute execute'')
     | MarketOrder_class \<Rightarrow> Inr (ord\<lparr> price := Some market_price, status := ''filled'' \<rparr>)
     | LimitOrder_class \<Rightarrow>
         (case (if side ord = ''BUY'' then price_le market_price (price ord) else Inr False) of
            Inl e \<Rightarrow> Inl e
          | Inr True \<Rightarrow> Inr (ord\<lparr> status := ''filled'' \<rparr>)
          | Inr False \<Rightarrow>
              (case (if side ord = ''SELL'' then price_ge market_price (price ord)
                     else Inr False) of
                 Inl e \<Rightarrow> Inl e
               | Inr True \<Rightarrow> Inr (ord\<lparr> status := ''filled'' \<rparr>)
               | Inr False \<Rightarrow> Inr ord)))"

text \<open>A run of \<open>execute\<close> calls on one order; the first exception ends the run.\<close>

fun execute_all :: "TradeOrder \<Rightarrow> real list \<Rightarrow> error + TradeOrder" where
  "execute_all ord [] = Inr ord"
| "execute_all ord (p # ps) =
     (case execute ord p of Inl e \<Rightarrow> Inl e | Inr ord' \<Rightarrow> execute_all ord' ps)"

text \<open>
  The calls an order object offers, and a sequence of them made on one order by a caller
  who goes on after an exception (the raising call has changed nothing).
\<close>

datatype order_call = Cancel | Execute real

fun call :: "TradeOrder \<Rightarrow> order_call \<Rightarrow> TradeOrder" where
  "call ord Cancel = cancel ord"
| "call ord (Execute p) = (case execute ord p of Inl e \<Rightarrow> ord | Inr ord' \<Rightarrow> ord')"

definition calls :: "TradeOrder \<Rightarrow> order_call list \<Rightarrow> TradeOrder" where
  "calls ord cs = foldl call ord cs"

section \<open>Receipts and the mock broker\<close>

text \<open>
  An order object is known to the broker by its identity (what \<open>id(order)\<close> returns); the
  store maps every identity to the current fields of that object.
\<close>

type_synonym oid = nat

type_synonym store = "oid \<Rightarrow> TradeOrder"

record OrderReceipt =
  order_id :: oid
  receipt_symbol :: string
  receipt_side :: string
  original_quantity :: real
  executed_quantity :: real
  executed_price :: "real option"
  receipt_timestamp :: string
  receipt_status :: string

definition OrderReceipt_init ::
  "string \<Rightarrow> string \<Rightarrow> oid \<Rightarrow> TradeOrder \<Rightarrow> string \<Rightarrow> real option \<Rightarrow> real \<Rightarrow> string
     \<Rightarrow> OrderReceipt" where
  "OrderReceipt_init symb sd ident ord ts exec_price exec_quantity st =
     \<lparr> order_id = ident, receipt_symbol = upper symb, receipt_side = upper sd,
       original_quantity = quantity ord, executed_quantity = exec_quantity,
       executed_price = exec_price, receipt_timestamp = ts, receipt_status = st \<rparr>"

record MockBrokerConnector =
  cash_balance :: real
  positions :: "string \<rightharpoonup> real"
  order_history :: "oid list"
  current_market_price :: real

definition MockBrokerConnector_init :: MockBrokerConnector where
  "MockBrokerConnector_init =
     \<lparr> cash_balance = 100000, positions = Map.empty, order_history = [],
       current_market_price = 100 \<rparr>"

text \<open>\<open>dict.get(key, default)\<close>.\<close>

definition dict_get :: "('k \<rightharpoonup> 'v) \<Rightarrow> 'k \<Rightarrow> 'v \<Rightarrow> 'v" where
  "dict_get d k dflt = (case d k of None \<Rightarrow> dflt | Some v \<Rightarrow> v)"

text \<open>
  \<open>MockBrokerConnector.submitOrder\<close>. The result is what the call returns or raises,
  together with the broker and the store as the call leaves them (an exception keeps
  the assignments made before it). \<open>now\<close> is the timestamp string the call reads from
  the clock for the receipt. \<open>None * quantity\<close> raises \<open>TypeError\<close>.
\<close>

definition submitOrder ::
  "string \<Rightarrow> MockBrokerConnector \<Rightarrow> store \<Rightarrow> oid
     \<Rightarrow> (error + OrderReceipt) \<times> MockBrokerConnector \<times> store" where
  "submitOrder now b st ident =
     (case execute (st ident) (current_market_price b) of
        Inl e \<Rightarrow> (Inl e, b, st)
      | Inr ord \<Rightarrow>
          let st1 = st(ident := ord);
              b1 = b\<lparr> order_history := order_history b @ [ident] \<rparr>;
              receipt = OrderReceipt_init (symbol ord) (side ord) ident ord now
                          (if status ord = ''filled'' then price ord else None)
                          (if status ord = ''filled'' then quantity ord else 0)
                          (status ord)
          in
          if status ord = ''filled'' then
            if side ord = ''BUY'' then
              (case price ord of
                 None \<Rightarrow> (Inl (TypeError ''unsupported operand type(s) for *''), b1, st1)
               | Some pr \<Rightarrow>
                   let cost = pr * quantity ord;
                       b2 = b1\<lparr> cash_balance := cash_balance b1 - cost \<rparr>;
                       b3 = b2\<lparr> positions := (positions b2)
                              (symbol ord \<mapsto> dict_get (positions b2) (symbol ord) 0 + quantity ord) \<rparr>
                   in (Inr receipt, b3, st1))
            else if side ord = ''SELL'' then
              (case price ord of
                 None \<Rightarrow> (Inl (TypeError ''unsupported operand type(s) for *''), b1, st1)
               | Some pr \<Rightarrow>
                   let revenue = pr * quantity ord;
                       b2 = b1\<lparr> cash_balance := cash_balance b1 + revenue \<rparr>;
                       b3 = b2\<lparr> positions := (positions b2)
                              (symbol ord \<mapsto> dict_get (positions b2) (symbol ord) 0 - quantity ord) \<rparr>
                   in (Inr receipt, b3, st1))
            else (Inr receipt, b1, st1)
          else (Inr receipt, b1, st1))"

text \<open>
  A sequence of \<open>submitOrder\<close> calls on one broker, each with its clock reading and the
  identity of the order submitted; the caller goes on after an exception. The results
  are listed in call order.
\<close>

fun submitOrders ::
  "MockBrokerConnector \<Rightarrow> store \<Rightarrow> (string \<times> oid) list
     \<Rightarrow> (error + OrderReceipt) list \<times> MockBrokerConnector \<times> store" where
  "submitOrders b st [] = ([], b, st)"
| "submitOrders b st ((now, ident) # rest) =
     (case submitOrder now b st ident of
        (res, b', st') \<Rightarrow>
          (case submitOrders b' st' rest of
             (ress, b'', st'') \<Rightarrow> (res # ress, b'', st'')))"

text \<open>
  The receipt that \<open>submitOrder\<close> builds for an order as \<open>execute\<close> left it (the
  same expression as in \<open>submitOrder\<close>, named so that facts can mention it).
\<close>

definition receipt_of :: "string \<Rightarrow> oid \<Rightarrow> TradeOrder \<Rightarrow> OrderReceipt" where
  "receipt_of now ident ord =
     OrderReceipt_init (symbol ord) (side ord) ident ord now
       (if status ord = ''filled'' then price ord else None)
       (if status ord = ''filled'' then quantity ord else 0) (status ord)"

text \<open>The store in which every identity denotes one and the same order object.\<close>

definition single_store :: "TradeOrder \<Rightarrow> store" where
  "single_store ord ident = ord"

section \<open>Market data queries\<close>

text \<open>
  The library calls the query makes are parameters of the model: \<open>strptime\<close> (which
  raises on a string it cannot parse), \<open>pd.date_range\<close>, \<open>strftime\<close>, the optional
  module \<open>yf\<close> (\<open>None\<close> when the import failed) with its \<open>download\<close>, and
  \<open>reset_index\<close>. \<open>'d\<close> is the type of parsed datetimes, \<open>'t\<close> the provider's table.
\<close>

record ('d, 't) library =
  strptime :: "string \<Rightarrow> string \<Rightarrow> error + 'd"
  strftime :: "'d \<Rightarrow> string \<Rightarrow> string"
  date_range :: "'d \<Rightarrow> 'd \<Rightarrow> string \<Rightarrow> 'd list"
  yf :: "(string \<Rightarrow> string \<Rightarrow> string \<Rightarrow> string \<Rightarrow> error + 't) option"
  reset_index :: "'t \<Rightarrow> 't"

record 'd MarketDataQuery =
  query_symbol :: string
  time_frame :: string
  start_date :: 'd
  end_date :: 'd
  frequency :: string
  source :: string

definition valid_frequencies :: "string list" where
  "valid_frequencies =
     [''1m'', ''2m'', ''5m'', ''15m'', ''30m'', ''60m'', ''90m'', ''1h'', ''1d'', ''5d'',
      ''1wk'', ''1mo'', ''3mo'']"

definition validate :: "('d::ord) MarketDataQuery \<Rightarrow> error + unit" where
  "validate q =
     (if start_date q > end_date q
      then Inl (ValueError ''Start date must be before end date'')
      else if frequency q \<notin> set valid_frequencies
      then Inl (ValueError
        ''Frequency must be one of ['1m', '2m', '5m', '15m', '30m', '60m', '90m', '1h', '1d', '5d', '1wk', '1mo', '3mo']'')
      else Inr ())"

definition MarketDataQuery_init ::
  "('d::ord, 't) library \<Rightarrow> string \<Rightarrow> string \<Rightarrow> string \<Rightarrow> string \<Rightarrow> string \<Rightarrow> string
     \<Rightarrow> error + 'd MarketDataQuery" where
  "MarketDataQuery_init lib symb tf start_str end_str freq src =
     (case strptime lib start_str ''%Y-%m-%d'' of
        Inl e \<Rightarrow> Inl e
      | Inr sd \<Rightarrow>
          (case strptime lib end_str ''%Y-%m-%d'' of
             Inl e \<Rightarrow> Inl e
           | Inr ed \<Rightarrow>
               let q = \<lparr> query_symbol = symb, time_frame = tf, start_date = sd,
                         end_date = ed, frequency = freq, source = src \<rparr>
               in (case validate q of Inl e \<Rightarrow> Inl e | Inr u \<Rightarrow> Inr q)))"

definition freq_map :: "(string \<times> string) list" where
  "freq_map =
     [(''1m'', ''T''), (''2m'', ''2T''), (''5m'', ''5T''), (''15m'', ''15T''),
      (''30m'', ''30T''), (''60m'', ''60T''), (''90m'', ''90T''), (''1h'', ''H''),
      (''1d'', ''D''), (''5d'', ''5D''), (''1wk'', ''W''), (''1mo'', ''MS''),
      (''3mo'', ''3MS'')]"

record 'd DataFrame =
  date_column :: "'d list"
  price_column :: "real list"

datatype ('d, 't) fetched = Synthetic "'d DataFrame" | Provider 't

text \<open>
  \<open>MarketDataQuery.fetch\<close>. \<open>not pd_freq\<close> holds for \<open>None\<close> and for the empty
  string. The message of the first error is not an f-string, so its braces are literal.
\<close>

definition fetch :: "('d::ord, 't) library \<Rightarrow> 'd MarketDataQuery \<Rightarrow> error + ('d, 't) fetched" where
  "fetch lib q =
     (if source q = ''test'' then
        (case map_of freq_map (frequency q) of
           None \<Rightarrow> Inl (ValueError ''Test source does not support frequency: {self.frequency}'')
         | Some pd_freq \<Rightarrow>
             if pd_freq = [] then
               Inl (ValueError ''Test source does not support frequency: {self.frequency}'')
             else
               let dates = date_range lib (start_date q) (end_date q) pd_freq;
                   dates = (if length dates = 0 \<and> start_date q \<le> end_date q
                            then [start_date q] else dates);
                   prices = map (\<lambda>i. 100 + real i * 0.5) [0 ..< length dates]
               in Inr (Synthetic \<lparr> date_column = dates, price_column = prices \<rparr>))
      else if source q = ''yahoo'' then
        (case yf lib of
           None \<Rightarrow> Inl (ImportError ''yfinance is not installed. Cannot use 'yahoo' source.'')
         | Some download \<Rightarrow>
             (case download (query_symbol q) (strftime lib (start_date q) ''%Y-%m-%d'')
                     (strftime lib (end_date q) ''%Y-%m-%d'') (frequency q) of
                Inl e \<Rightarrow> Inl e
              | Inr df \<Rightarrow> Inr (Provider (reset_index lib df))))
      else Inl (ValueError (''Unknown source: '' @ source q)))"

text \<open>
  A stand-in for the libraries in the worked examples: a datetime is the day of January
  2023, two date strings parse, and the daily range lists every day from start to end.
\<close>

definition january_2023 :: "(nat, unit) library" where
  "january_2023 =
     \<lparr> strptime = (\<lambda>s fmt. if s = ''2023-01-01'' then Inr 1
                         else if s = ''2023-01-05'' then Inr 5
                         else Inl (ValueError ''time data does not match format'')),
       strftime = (\<lambda>d fmt. ''2023-01-'' @ (if d = 1 then ''01'' else ''05'')),
       date_range = (\<lambda>s e f. if f = ''D'' then [s ..< Suc e] else []),
       yf = None,
       reset_index = (\<lambda>t. t) \<rparr>"

section \<open>Auxiliary facts\<close>

lemma upper_examples:
  "upper ''buy'' = ''BUY''" "upper ''sell'' = ''SELL''"
  "upper ''BUY'' = ''BUY''" "upper ''SELL'' = ''SELL''"
  "upper ''aapl'' = ''AAPL''" "upper ''AAPL'' = ''AAPL''"
  "upper ''msft'' = ''MSFT''" "upper ''MSFT'' = ''MSFT''"
  "upper ''tsla'' = ''TSLA''" "upper ''TSLA'' = ''TSLA''"
  "upper ''goog'' = ''GOOG''"
  "lower ''market'' = ''market''" "lower ''limit'' = ''limit''"
  by code_simp+

lemma execute_class: "execute ord p = Inr ord' \<Longrightarrow> order_class ord' = order_class ord"
  by (auto simp: execute_def price_le_def price_ge_def
           split: order_class.splits if_splits option.splits bool.splits sum.splits)

lemma execute_status:
  "execute ord p = Inr ord' \<Longrightarrow> status ord' = ''filled'' \<or> status ord' = status ord"
  by (auto simp: execute_def price_le_def price_ge_def
           split: order_class.splits if_splits option.splits bool.splits sum.splits)

lemma call_filled: "status ord = ''filled'' \<Longrightarrow> status (call ord c) = ''filled''"
  by (cases c) (auto simp: cancel_def dest: execute_status split: sum.splits)

lemma call_cancelled:
  "status ord = ''cancelled'' \<Longrightarrow>
     status (call ord c) = ''cancelled'' \<or> status (call ord c) = ''filled''"
  by (cases c) (auto simp: cancel_def dest: execute_status split: sum.splits)

lemma calls_filled: "status ord = ''filled'' \<Longrightarrow> status (calls ord cs) = ''filled''"
  unfolding calls_def by (induction cs arbitrary: ord) (simp_all add: call_filled)

lemma calls_cancelled:
  "status ord = ''cancelled'' \<Longrightarrow>
     status (calls ord cs) = ''cancelled'' \<or> status (calls ord cs) = ''filled''"
  unfolding calls_def
proof (induction cs arbitrary: ord)
  case Nil
  then show ?case by simp
next
  case (Cons c cs)
  from call_cancelled [OF Cons.prems, of c] show ?case
  proof
    assume "status (call ord c) = ''cancelled''"
    from Cons.IH [OF this] show ?thesis by simp
  next
    assume "status (call ord c) = ''filled''"
    then have "status (calls (call ord c) cs) = ''filled''" by (rule calls_filled)
    then show ?thesis by (simp add: calls_def)
  qed
qed

lemma calls_cancel_only:
  "status ord = ''cancelled'' \<Longrightarrow> set cs \<subseteq> {Cancel} \<Longrightarrow> status (calls ord cs) = ''cancelled''"
  unfolding calls_def by (induction cs arbitrary: ord) (simp_all add: cancel_def)

lemma calls_base_cancelled:
  "order_class ord = TradeOrder_class \<Longrightarrow> status ord = ''cancelled''
     \<Longrightarrow> status (calls ord cs) = ''cancelled''"
  unfolding calls_def
proof (induction cs arbitrary: ord)
  case Nil
  then show ?case by simp
next
  case (Cons c cs)
  have "call ord c = ord"
    using Cons.prems by (cases c) (simp_all add: cancel_def execute_def)
  with Cons show ?case by simp
qed

lemma execute_priced:
  "execute ord p = Inr ord' \<Longrightarrow> side ord' = ''BUY'' \<or> side ord' = ''SELL''
     \<Longrightarrow> \<exists>pr. price ord' = Some pr"
  by (auto simp: execute_def price_le_def price_ge_def
           split: order_class.splits if_splits option.splits bool.splits sum.splits)


lemma submitOrder_execute_raises:
  "execute (st ident) (current_market_price b) = Inl e \<Longrightarrow>
     submitOrder now b st ident = (Inl e, b, st)"
  by (simp add: submitOrder_def)

lemma submitOrder_not_filled:
  "execute (st ident) (current_market_price b) = Inr ord \<Longrightarrow> status ord \<noteq> ''filled'' \<Longrightarrow>
     submitOrder now b st ident =
       (Inr (receipt_of now ident ord), b\<lparr> order_history := order_history b @ [ident] \<rparr>,
        st(ident := ord))"
  by (simp add: submitOrder_def Let_def receipt_of_def)

lemma submitOrder_filled_other:
  "execute (st ident) (current_market_price b) = Inr ord \<Longrightarrow> status ord = ''filled'' \<Longrightarrow>
   side ord \<noteq> ''BUY'' \<Longrightarrow> side ord \<noteq> ''SELL'' \<Longrightarrow>
     submitOrder now b st ident =
       (Inr (receipt_of now ident ord), b\<lparr> order_history := order_history b @ [ident] \<rparr>,
        st(ident := ord))"
  by (simp add: submitOrder_def Let_def receipt_of_def)

lemma submitOrder_filled_buy:
  "execute (st ident) (current_market_price b) = Inr ord \<Longrightarrow> status ord = ''filled'' \<Longrightarrow>
   side ord = ''BUY'' \<Longrightarrow> price ord = Some pr \<Longrightarrow>
     submitOrder now b st ident =
       (Inr (receipt_of now ident ord),
        b\<lparr> order_history := order_history b @ [ident],
           cash_balance := cash_balance b - pr * quantity ord,
           positions := (positions b)
             (symbol ord \<mapsto> dict_get (positions b) (symbol ord) 0 + quantity ord) \<rparr>,
        st(ident := ord))"
  by (simp add: submitOrder_def Let_def receipt_of_def)

lemma submitOrder_filled_sell:
  "execute (st ident) (current_market_price b) = Inr ord \<Longrightarrow> status ord = ''filled'' \<Longrightarrow>
   side ord = ''SELL'' \<Longrightarrow> price ord = Some pr \<Longrightarrow>
     submitOrder now b st ident =
       (Inr (receipt_of now ident ord),
        b\<lparr> order_history := order_history b @ [ident],
           cash_balance := cash_balance b + pr * quantity ord,
           positions := (positions b)
             (symbol ord \<mapsto> dict_get (positions b) (symbol ord) 0 - quantity ord) \<rparr>,
        st(ident := ord))"
  by (simp add: submitOrder_def Let_def receipt_of_def)

lemma submitOrder_returned:
  assumes "submitOrder now b st ident = (Inr r, b', st')"
  obtains ord where "execute (st ident) (current_market_price b) = Inr ord"
    and "st' = st(ident := ord)" and "r = receipt_of now ident ord"
    and "order_history b' = order_history b @ [ident]"
    and "status ord = ''filled'' \<Longrightarrow> side ord = ''BUY'' \<Longrightarrow>
           \<exists>pr. price ord = Some pr \<and> cash_balance b' = cash_balance b - pr * quantity ord \<and>
             positions b' = (positions b)
               (symbol ord \<mapsto> dict_get (positions b) (symbol ord) 0 + quantity ord)"
    and "status ord = ''filled'' \<Longrightarrow> side ord = ''SELL'' \<Longrightarrow>
           \<exists>pr. price ord = Some pr \<and> cash_balance b' = cash_balance b + pr * quantity ord \<and>
             positions b' = (positions b)
               (symbol ord \<mapsto> dict_get (positions b) (symbol ord) 0 - quantity ord)"
    and "\<not> (status ord = ''filled'' \<and> (side ord = ''BUY'' \<or> side ord = ''SELL'')) \<Longrightarrow>
           cash_balance b' = cash_balance b \<and> positions b' = positions b"
proof (cases "execute (st ident) (current_market_price b)")
  case (Inl e)
  from submitOrder_execute_raises [where st=st and ident=ident and now=now, OF Inl] assms show ?thesis by simp
next
  case (Inr ord)
  show ?thesis
  proof (cases "status ord = ''filled''")
    case False
    from submitOrder_not_filled [where st=st and ident=ident and now=now, OF Inr False] assms
    have "st' = st(ident := ord)" "r = receipt_of now ident ord"
      "b' = b\<lparr> order_history := order_history b @ [ident] \<rparr>" by simp_all
    with Inr False that show ?thesis by simp
  next
    case filled: True
    consider (buy) "side ord = ''BUY''" | (sell) "side ord = ''SELL''"
      | (other) "side ord \<noteq> ''BUY''" "side ord \<noteq> ''SELL''" by blast
    then show ?thesis
    proof cases
      case buy
      with execute_priced [OF Inr] obtain pr where pr: "price ord = Some pr" by blast
      from submitOrder_filled_buy [where st=st and ident=ident and now=now, OF Inr filled buy pr] assms
      have "st' = st(ident := ord)" "r = receipt_of now ident ord"
        "b' = b\<lparr> order_history := order_history b @ [ident],
           cash_balance := cash_balance b - pr * quantity ord,
           positions := (positions b)
             (symbol ord \<mapsto> dict_get (positions b) (symbol ord) 0 + quantity ord) \<rparr>"
        by simp_all
      with Inr filled buy pr that show ?thesis by simp
    next
      case sell
      with execute_priced [OF Inr] obtain pr where pr: "price ord = Some pr" by blast
      from submitOrder_filled_sell [where st=st and ident=ident and now=now, OF Inr filled sell pr] assms
      have "st' = st(ident := ord)" "r = receipt_of now ident ord"
        "b' = b\<lparr> order_history := order_history b @ [ident],
           cash_balance := cash_balance b + pr * quantity ord,
           positions := (positions b)
             (symbol ord \<mapsto> dict_get (positions b) (symbol ord) 0 - quantity ord) \<rparr>"
        by simp_all
      with Inr filled sell pr that show ?thesis by simp
    next
      case other
      from submitOrder_filled_other [where st=st and ident=ident and now=now, OF Inr filled other] assms
      have "st' = st(ident := ord)" "r = receipt_of now ident ord"
        "b' = b\<lparr> order_history := order_history b @ [ident] \<rparr>" by simp_all
      with Inr filled other that show ?thesis by simp
    qed
  qed
qed

lemma submitOrder_raised:
  assumes "submitOrder now b st ident = (Inl e, b', st')"
  shows "cash_balance b' = cash_balance b \<and> positions b' = positions b"
proof (cases "execute (st ident) (current_market_price b)")
  case (Inl e')
  from submitOrder_execute_raises [where st=st and ident=ident and now=now, OF Inl] assms show ?thesis by simp
next
  case (Inr ord)
  show ?thesis
  proof (cases "status ord = ''filled''")
    case False
    from submitOrder_not_filled [where st=st and ident=ident and now=now, OF Inr False] assms show ?thesis by simp
  next
    case filled: True
    consider (buy) "side ord = ''BUY''" | (sell) "side ord = ''SELL''"
      | (other) "side ord \<noteq> ''BUY''" "side ord \<noteq> ''SELL''" by blast
    then show ?thesis
    proof cases
      case buy
      with execute_priced [OF Inr] obtain pr where pr: "price ord = Some pr" by blast
      from submitOrder_filled_buy [where st=st and ident=ident and now=now, OF Inr filled buy pr] assms show ?thesis by simp
    next
      case sell
      with execute_priced [OF Inr] obtain pr where pr: "price ord = Some pr" by blast
      from submitOrder_filled_sell [where st=st and ident=ident and now=now, OF Inr filled sell pr] assms show ?thesis by simp
    next
      case other
      from submitOrder_filled_other [where st=st and ident=ident and now=now, OF Inr filled other] assms show ?thesis by simp
    qed
  qed
qed


lemma submitOrder_returned_ex:
  assumes "submitOrder now b st ident = (Inr r, b', st')"
  shows "\<exists>ord. execute (st ident) (current_market_price b) = Inr ord \<and>
           st' = st(ident := ord) \<and> r = receipt_of now ident ord \<and>
           order_history b' = order_history b @ [ident] \<and>
           (status ord = ''filled'' \<and> side ord = ''BUY'' \<longrightarrow>
              (\<exists>pr. price ord = Some pr \<and> cash_balance b' = cash_balance b - pr * quantity ord \<and>
                 positions b' = (positions b)
                   (symbol ord \<mapsto> dict_get (positions b) (symbol ord) 0 + quantity ord))) \<and>
           (status ord = ''filled'' \<and> side ord = ''SELL'' \<longrightarrow>
              (\<exists>pr. price ord = Some pr \<and> cash_balance b' = cash_balance b + pr * quantity ord \<and>
                 positions b' = (positions b)
                   (symbol ord \<mapsto> dict_get (positions b) (symbol ord) 0 - quantity ord))) \<and>
           (\<not> (status ord = ''filled'' \<and> (side ord = ''BUY'' \<or> side ord = ''SELL'')) \<longrightarrow>
              cash_balance b' = cash_balance b \<and> positions b' = positions b)"
  using assms by (rule submitOrder_returned) blast

lemma fresh_market_buy:
  "submitOrder ''t'' MockBrokerConnector_init
     (single_store (MarketOrder_init ''t0'' ''aapl'' ''buy'' 10)) 0 =
   (Inr (receipt_of ''t'' 0
          ((MarketOrder_init ''t0'' ''aapl'' ''buy'' 10)\<lparr> price := Some 100, status := ''filled'' \<rparr>)),
    MockBrokerConnector_init \<lparr> order_history := [0], cash_balance := 99000,
       positions := [''AAPL'' \<mapsto> 10] \<rparr>,
    (single_store (MarketOrder_init ''t0'' ''aapl'' ''buy'' 10))
      (0 := (MarketOrder_init ''t0'' ''aapl'' ''buy'' 10)\<lparr> price := Some 100, status := ''filled'' \<rparr>))"
proof -
  let ?ord = "(MarketOrder_init ''t0'' ''aapl'' ''buy'' 10)\<lparr> price := Some 100, status := ''filled'' \<rparr>"
  have ex: "execute (single_store (MarketOrder_init ''t0'' ''aapl'' ''buy'' 10) 0)
              (current_market_price MockBrokerConnector_init) = Inr ?ord"
    by (simp add: execute_def single_store_def MarketOrder_init_def TradeOrder_init_def
                  MockBrokerConnector_init_def)
  have "status ?ord = ''filled''" "side ?ord = ''BUY''" "price ?ord = Some 100"
    "symbol ?ord = ''AAPL''" "quantity ?ord = 10"
    by (simp_all add: MarketOrder_init_def TradeOrder_init_def upper_examples)
  from submitOrder_filled_buy
         [where st="single_store (MarketOrder_init ''t0'' ''aapl'' ''buy'' 10)" and ident=0
            and now="''t''", OF ex this(1-3)] this(4,5)
  show ?thesis by (simp add: MockBrokerConnector_init_def dict_get_def)
qed

lemma fresh_market_sell:
  "submitOrder ''t'' MockBrokerConnector_init
     (single_store (MarketOrder_init ''t0'' ''msft'' ''sell'' 5)) 0 =
   (Inr (receipt_of ''t'' 0
          ((MarketOrder_init ''t0'' ''msft'' ''sell'' 5)\<lparr> price := Some 100, status := ''filled'' \<rparr>)),
    MockBrokerConnector_init \<lparr> order_history := [0], cash_balance := 100500,
       positions := [''MSFT'' \<mapsto> - 5] \<rparr>,
    (single_store (MarketOrder_init ''t0'' ''msft'' ''sell'' 5))
      (0 := (MarketOrder_init ''t0'' ''msft'' ''sell'' 5)\<lparr> price := Some 100, status := ''filled'' \<rparr>))"
proof -
  let ?ord = "(MarketOrder_init ''t0'' ''msft'' ''sell'' 5)\<lparr> price := Some 100, status := ''filled'' \<rparr>"
  have ex: "execute (single_store (MarketOrder_init ''t0'' ''msft'' ''sell'' 5) 0)
              (current_market_price MockBrokerConnector_init) = Inr ?ord"
    by (simp add: execute_def single_store_def MarketOrder_init_def TradeOrder_init_def
                  MockBrokerConnector_init_def)
  have "status ?ord = ''filled''" "side ?ord = ''SELL''" "price ?ord = Some 100"
    "symbol ?ord = ''MSFT''" "quantity ?ord = 5"
    by (simp_all add: MarketOrder_init_def TradeOrder_init_def upper_examples)
  from submitOrder_filled_sell
         [where st="single_store (MarketOrder_init ''t0'' ''msft'' ''sell'' 5)" and ident=0
            and now="''t''", OF ex this(1-3)] this(4,5)
  show ?thesis by (simp add: MockBrokerConnector_init_def dict_get_def)
qed

lemma execute_unfilled_same:
  "execute ord p = Inr ord' \<Longrightarrow> status ord' \<noteq> ''filled'' \<Longrightarrow> ord' = ord"
  by (auto simp: execute_def price_le_def price_ge_def
           split: order_class.splits if_splits option.splits bool.splits sum.splits)

lemma submitOrder_unmet_limit_buy:
  assumes "order_class ord0 = LimitOrder_class" and "side ord0 = ''BUY''"
    and "price ord0 = Some L" and "L < current_market_price b" and "status ord0 \<noteq> ''filled''"
  shows "submitOrder now b (single_store ord0) 0 =
           (Inr (receipt_of now 0 ord0), b\<lparr> order_history := order_history b @ [0] \<rparr>,
            single_store ord0)"
proof -
  have ex: "execute (single_store ord0 0) (current_market_price b) = Inr ord0"
    using assms by (simp add: execute_def price_le_def single_store_def)
  have "(single_store ord0)(0 := ord0) = single_store ord0"
    by (simp add: single_store_def fun_eq_iff)
  with submitOrder_not_filled [where st="single_store ord0" and ident=0 and now=now, OF ex assms(5)]
  show ?thesis by simp
qed

lemma limit_buy_95_facts:
  "order_class (LimitOrder_init ''t0'' ''tsla'' ''buy'' 10 (Some 95)) = LimitOrder_class"
  "side (LimitOrder_init ''t0'' ''tsla'' ''buy'' 10 (Some 95)) = ''BUY''"
  "price (LimitOrder_init ''t0'' ''tsla'' ''buy'' 10 (Some 95)) = Some 95"
  "status (LimitOrder_init ''t0'' ''tsla'' ''buy'' 10 (Some 95)) = ''pending''"
  "symbol (LimitOrder_init ''t0'' ''tsla'' ''buy'' 10 (Some 95)) = ''TSLA''"
  "quantity (LimitOrder_init ''t0'' ''tsla'' ''buy'' 10 (Some 95)) = 10"
  by (simp_all add: LimitOrder_init_def TradeOrder_init_def upper_examples)

lemma cancelled_limit_buy_95_facts:
  "order_class (cancel (LimitOrder_init ''t0'' ''tsla'' ''buy'' 10 (Some 95))) = LimitOrder_class"
  "side (cancel (LimitOrder_init ''t0'' ''tsla'' ''buy'' 10 (Some 95))) = ''BUY''"
  "price (cancel (LimitOrder_init ''t0'' ''tsla'' ''buy'' 10 (Some 95))) = Some 95"
  "status (cancel (LimitOrder_init ''t0'' ''tsla'' ''buy'' 10 (Some 95))) = ''cancelled''"
  by (simp_all add: cancel_def limit_buy_95_facts)

lemma fresh_limit_pending:
  "submitOrder ''t'' MockBrokerConnector_init
     (single_store (LimitOrder_init ''t0'' ''tsla'' ''buy'' 10 (Some 95))) 0 =
   (Inr (receipt_of ''t'' 0 (LimitOrder_init ''t0'' ''tsla'' ''buy'' 10 (Some 95))),
    MockBrokerConnector_init \<lparr> order_history := [0] \<rparr>,
    single_store (LimitOrder_init ''t0'' ''tsla'' ''buy'' 10 (Some 95)))"
  using submitOrder_unmet_limit_buy
          [where ?ord0.0="LimitOrder_init ''t0'' ''tsla'' ''buy'' 10 (Some 95)" and L=95
             and b=MockBrokerConnector_init and now="''t''"]
  by (simp add: limit_buy_95_facts) (simp add: MockBrokerConnector_init_def)

lemma fresh_limit_cancelled:
  "submitOrder ''t'' MockBrokerConnector_init
     (single_store (cancel (LimitOrder_init ''t0'' ''tsla'' ''buy'' 10 (Some 95)))) 0 =
   (Inr (receipt_of ''t'' 0 (cancel (LimitOrder_init ''t0'' ''tsla'' ''buy'' 10 (Some 95)))),
    MockBrokerConnector_init \<lparr> order_history := [0] \<rparr>,
    single_store (cancel (LimitOrder_init ''t0'' ''tsla'' ''buy'' 10 (Some 95))))"
  using submitOrder_unmet_limit_buy
          [where ?ord0.0="cancel (LimitOrder_init ''t0'' ''tsla'' ''buy'' 10 (Some 95))" and L=95
             and b=MockBrokerConnector_init and now="''t''"]
  by (simp add: cancelled_limit_buy_95_facts) (simp add: MockBrokerConnector_init_def)

lemma valid_frequencies_set:
  "set valid_frequencies =
     {''1m'', ''2m'', ''5m'', ''15m'', ''30m'', ''60m'', ''90m'', ''1h'', ''1d'', ''5d'',
      ''1wk'', ''1mo'', ''3mo''}"
  by (simp add: valid_frequencies_def)

lemma freq_map_keys: "map fst freq_map = valid_frequencies"
  by (simp add: freq_map_def valid_frequencies_def)

lemma freq_map_aliases: "[] \<notin> set (map snd freq_map)"
  by (simp add: freq_map_def)

lemma freq_map_lookup:
  assumes "f \<in> set valid_frequencies"
  shows "\<exists>a. map_of freq_map f = Some a \<and> a \<noteq> []"
proof -
  from assms have "f \<in> fst ` set freq_map" using freq_map_keys by (metis set_map)
  then have "map_of freq_map f \<noteq> None" by (simp add: map_of_eq_None_iff)
  then obtain a where a: "map_of freq_map f = Some a" by blast
  then have "(f, a) \<in> set freq_map" by (rule map_of_SomeD)
  then have "a \<in> set (map snd freq_map)" by force
  with freq_map_aliases have "a \<noteq> []" by metis
  with a show ?thesis by blast
qed

lemma validate_ok:
  fixes q :: "('d::linorder) MarketDataQuery"
  shows "validate q = Inr u \<longleftrightarrow> start_date q \<le> end_date q \<and> frequency q \<in> set valid_frequencies"
  by (auto simp: validate_def)

lemma validate_error:
  fixes q :: "('d::linorder) MarketDataQuery"
  shows "validate q = Inl e \<Longrightarrow> \<exists>msg. e = ValueError msg"
  by (auto simp: validate_def split: if_splits)

lemma init_parsed:
  assumes "strptime lib start_str ''%Y-%m-%d'' = Inr sd"
    and "strptime lib end_str ''%Y-%m-%d'' = Inr ed"
  shows "MarketDataQuery_init lib symb tf start_str end_str freq src =
           (case validate \<lparr> query_symbol = symb, time_frame = tf, start_date = sd,
                              end_date = ed, frequency = freq, source = src \<rparr> of
              Inl e \<Rightarrow> Inl e
            | Inr u \<Rightarrow> Inr \<lparr> query_symbol = symb, time_frame = tf, start_date = sd,
                              end_date = ed, frequency = freq, source = src \<rparr>)"
  using assms by (simp add: MarketDataQuery_init_def Let_def)

lemma init_valid:
  fixes lib :: "('d::linorder, 't) library"
  assumes "MarketDataQuery_init lib symb tf start_str end_str freq src = Inr q"
  shows "start_date q \<le> end_date q \<and> frequency q \<in> set valid_frequencies \<and>
         frequency q = freq \<and> source q = src \<and>
         strptime lib start_str ''%Y-%m-%d'' = Inr (start_date q) \<and>
         strptime lib end_str ''%Y-%m-%d'' = Inr (end_date q)"
proof -
  from assms obtain sd ed where
    p: "strptime lib start_str ''%Y-%m-%d'' = Inr sd" "strptime lib end_str ''%Y-%m-%d'' = Inr ed"
    by (auto simp: MarketDataQuery_init_def split: sum.splits)
  let ?q = "\<lparr> query_symbol = symb, time_frame = tf, start_date = sd,
              end_date = ed, frequency = freq, source = src \<rparr>"
  from assms init_parsed [OF p] have "validate ?q = Inr ()" "q = ?q"
    by (auto split: sum.splits)
  with p validate_ok [of ?q "()"] show ?thesis by simp
qed


lemma fetch_test:
  fixes lib :: "('d::linorder, 't) library"
  assumes "source q = ''test''" and "map_of freq_map (frequency q) = Some a" and "a \<noteq> []"
    and "start_date q \<le> end_date q"
  shows "fetch lib q = Inr (Synthetic
           \<lparr> date_column =
               (if date_range lib (start_date q) (end_date q) a = [] then [start_date q]
                else date_range lib (start_date q) (end_date q) a),
             price_column = map (\<lambda>i. 100 + real i * 0.5)
               [0 ..< length (if date_range lib (start_date q) (end_date q) a = []
                              then [start_date q]
                              else date_range lib (start_date q) (end_date q) a)] \<rparr>)"
  using assms by (simp add: fetch_def Let_def)

lemma january_parse:
  "strptime january_2023 ''2023-01-01'' ''%Y-%m-%d'' = Inr 1"
  "strptime january_2023 ''2023-01-05'' ''%Y-%m-%d'' = Inr 5"
  by (simp_all add: january_2023_def)

lemma january_query:
  "MarketDataQuery_init january_2023 ''TEST'' ''D1'' ''2023-01-01'' ''2023-01-05'' ''1d'' ''test''
     = Inr \<lparr> query_symbol = ''TEST'', time_frame = ''D1'', start_date = 1, end_date = 5,
             frequency = ''1d'', source = ''test'' \<rparr>"
  by (simp add: init_parsed [OF january_parse] validate_def valid_frequencies_def)



lemma call_class: "order_class (call ord c) = order_class ord"
  by (cases c) (auto simp: cancel_def dest: execute_class split: sum.splits)

lemma calls_class: "order_class (calls ord cs) = order_class ord"
  unfolding calls_def by (induction cs arbitrary: ord) (simp_all add: call_class)

lemma call_market_execute:
  "order_class ord = MarketOrder_class \<Longrightarrow> status (call ord (Execute p)) = ''filled''"
  by (simp add: execute_def)

lemma calls_market_execute:
  assumes "order_class ord = MarketOrder_class" and "Execute p \<in> set cs"
  shows "status (calls ord cs) = ''filled''"
proof -
  from assms(2) obtain xs ys where cs: "cs = xs @ Execute p # ys"
    by (auto dest: split_list)
  have "order_class (calls ord xs) = MarketOrder_class"
    using assms(1) by (simp add: calls_class)
  then have "status (call (calls ord xs) (Execute p)) = ''filled''"
    by (rule call_market_execute)
  then have "status (calls (call (calls ord xs) (Execute p)) ys) = ''filled''"
    by (rule calls_filled)
  then show ?thesis by (simp add: cs calls_def)
qed

lemma call_limit_execute:
  assumes "order_class ord = LimitOrder_class" and "price ord = Some L"
  shows "side ord = ''BUY'' \<Longrightarrow>
           call ord (Execute p) = (if p \<le> L then ord\<lparr> status := ''filled'' \<rparr> else ord)"
    and "side ord = ''SELL'' \<Longrightarrow>
           call ord (Execute p) = (if p \<ge> L then ord\<lparr> status := ''filled'' \<rparr> else ord)"
  using assms by (simp_all add: execute_def price_le_def price_ge_def)

lemma cancelled_orders_facts:
  "status (cancel (MarketOrder_init ''t'' ''aapl'' ''buy'' 10)) = ''cancelled''"
  "order_class (cancel (MarketOrder_init ''t'' ''aapl'' ''buy'' 10)) = MarketOrder_class"
  "status (cancel (LimitOrder_init ''t'' ''goog'' ''buy'' 10 (Some 150))) = ''cancelled''"
  "order_class (cancel (LimitOrder_init ''t'' ''goog'' ''buy'' 10 (Some 150))) = LimitOrder_class"
  "price (cancel (LimitOrder_init ''t'' ''goog'' ''buy'' 10 (Some 150))) = Some 150"
  "side (cancel (LimitOrder_init ''t'' ''goog'' ''buy'' 10 (Some 150))) = ''BUY''"
  "status (cancel (LimitOrder_init ''t'' ''tsla'' ''sell'' 5 (Some 200))) = ''cancelled''"
  "order_class (cancel (LimitOrder_init ''t'' ''tsla'' ''sell'' 5 (Some 200))) = LimitOrder_class"
  "price (cancel (LimitOrder_init ''t'' ''tsla'' ''sell'' 5 (Some 200))) = Some 200"
  "side (cancel (LimitOrder_init ''t'' ''tsla'' ''sell'' 5 (Some 200))) = ''SELL''"
  "status (cancel (TradeOrder_init ''t'' ''goog'' ''buy'' 10 ''market'' None)) = ''cancelled''"
  "order_class (cancel (TradeOrder_init ''t'' ''goog'' ''buy'' 10 ''market'' None)) = TradeOrder_class"
  by (simp_all add: cancel_def MarketOrder_init_def LimitOrder_init_def TradeOrder_init_def
                    upper_examples)

section \<open>Order state machine\<close>

text \<open>
  C9. \<open>cancel()\<close> has no raising path (it is a total function on orders). On a pending
  order it changes the status to cancelled and nothing else; on an order whose status is
  filled or cancelled it returns the order unchanged in every field.
\<close>

theorem cancel_pending_or_noop:
  "(status ord = ''pending'' \<longrightarrow>
      cancel ord = ord\<lparr> status := ''cancelled'' \<rparr> \<and> status (cancel ord) = ''cancelled'') \<and>
   (status ord = ''filled'' \<or> status ord = ''cancelled'' \<longrightarrow> cancel ord = ord)"
  by (auto simp: cancel_def)

theorem cancel_pending_or_noop_witness:
  "cancel (TradeOrder_init ''t'' ''aapl'' ''buy'' 100 ''market'' None)
     = (TradeOrder_init ''t'' ''aapl'' ''buy'' 100 ''market'' None)\<lparr> status := ''cancelled'' \<rparr>
   \<and> cancel ((TradeOrder_init ''t'' ''aapl'' ''buy'' 100 ''market'' None)\<lparr> status := ''filled'' \<rparr>)
     = (TradeOrder_init ''t'' ''aapl'' ''buy'' 100 ''market'' None)\<lparr> status := ''filled'' \<rparr>"
  using cancel_pending_or_noop [of "TradeOrder_init ''t'' ''aapl'' ''buy'' 100 ''market'' None"]
        cancel_pending_or_noop
          [of "(TradeOrder_init ''t'' ''aapl'' ''buy'' 100 ''market'' None)\<lparr> status := ''filled'' \<rparr>"]
  by (simp add: TradeOrder_init_def)

text \<open>
  C2. A LimitOrder with a numeric limit price \<open>L\<close>: \<open>execute(p)\<close> never raises; on side
  BUY it sets the status to filled exactly when \<open>p \<le> L\<close>, on side SELL exactly when
  \<open>p \<ge> L\<close>, and otherwise it returns the order as it was (status included). So an order
  that was not filled before the call is filled after it iff the condition holds.
\<close>

theorem limit_execute_fills_iff:
  assumes "order_class ord = LimitOrder_class" and "price ord = Some L"
  shows "(side ord = ''BUY'' \<longrightarrow>
            execute ord p = Inr (if p \<le> L then ord\<lparr> status := ''filled'' \<rparr> else ord)) \<and>
         (side ord = ''SELL'' \<longrightarrow>
            execute ord p = Inr (if p \<ge> L then ord\<lparr> status := ''filled'' \<rparr> else ord)) \<and>
         (side ord = ''BUY'' \<and> status ord \<noteq> ''filled'' \<longrightarrow>
            (\<exists>ord'. execute ord p = Inr ord' \<and> (status ord' = ''filled'' \<longleftrightarrow> p \<le> L))) \<and>
         (side ord = ''SELL'' \<and> status ord \<noteq> ''filled'' \<longrightarrow>
            (\<exists>ord'. execute ord p = Inr ord' \<and> (status ord' = ''filled'' \<longleftrightarrow> p \<ge> L)))"
  using assms by (simp add: execute_def price_le_def price_ge_def)

theorem limit_execute_fills_iff_witness:
  "execute (LimitOrder_init ''t'' ''goog'' ''buy'' 10 (Some 150)) 151
     = Inr (LimitOrder_init ''t'' ''goog'' ''buy'' 10 (Some 150)) \<and>
   execute (LimitOrder_init ''t'' ''goog'' ''buy'' 10 (Some 150)) 150
     = Inr ((LimitOrder_init ''t'' ''goog'' ''buy'' 10 (Some 150))\<lparr> status := ''filled'' \<rparr>) \<and>
   execute (LimitOrder_init ''t'' ''tsla'' ''sell'' 5 (Some 200)) 199
     = Inr (LimitOrder_init ''t'' ''tsla'' ''sell'' 5 (Some 200)) \<and>
   execute (LimitOrder_init ''t'' ''tsla'' ''sell'' 5 (Some 200)) 201
     = Inr ((LimitOrder_init ''t'' ''tsla'' ''sell'' 5 (Some 200))\<lparr> status := ''filled'' \<rparr>)"
  using limit_execute_fills_iff [of "LimitOrder_init ''t'' ''goog'' ''buy'' 10 (Some 150)" 150 151]
        limit_execute_fills_iff [of "LimitOrder_init ''t'' ''goog'' ''buy'' 10 (Some 150)" 150 150]
        limit_execute_fills_iff [of "LimitOrder_init ''t'' ''tsla'' ''sell'' 5 (Some 200)" 200 199]
        limit_execute_fills_iff [of "LimitOrder_init ''t'' ''tsla'' ''sell'' 5 (Some 200)" 200 201]
  by (simp add: LimitOrder_init_def TradeOrder_init_def upper_examples)

text \<open>
  C6. A MarketOrder, whatever its status and price before: a non-empty run of
  \<open>execute(p1), ..., execute(pn)\<close> never raises and leaves the order with status filled
  and price \<open>pn\<close>, the last argument; no other field changes.
\<close>

theorem market_execute_all_last:
  assumes "order_class ord = MarketOrder_class" and "ps \<noteq> []"
  shows "execute_all ord ps = Inr (ord\<lparr> price := Some (last ps), status := ''filled'' \<rparr>)"
  using assms
proof (induction ps arbitrary: ord)
  case Nil
  then show ?case by simp
next
  case (Cons p ps)
  show ?case
  proof (cases "ps = []")
    case True
    with Cons.prems show ?thesis by (simp add: execute_def)
  next
    case False
    have "order_class (ord\<lparr> price := Some p, status := ''filled'' \<rparr>) = MarketOrder_class"
      using Cons.prems by simp
    from Cons.IH [OF this False] Cons.prems False show ?thesis
      by (simp add: execute_def)
  qed
qed

theorem market_execute_all_last_witness:
  "execute_all (cancel (MarketOrder_init ''t'' ''msft'' ''sell'' 50)) [123.45, 99, 101.5]
     = Inr ((cancel (MarketOrder_init ''t'' ''msft'' ''sell'' 50))
              \<lparr> price := Some 101.5, status := ''filled'' \<rparr>)"
  using market_execute_all_last
          [of "cancel (MarketOrder_init ''t'' ''msft'' ''sell'' 50)" "[123.45, 99, 101.5]"]
  by (simp add: MarketOrder_init_def TradeOrder_init_def cancel_def)

text \<open>
  C3, as the specification states it, fails: a cancelled MarketOrder that is executed
  becomes filled.
\<close>

theorem cancelled_market_order_fills:
  "status (cancel (MarketOrder_init ''t'' ''aapl'' ''buy'' 10)) = ''cancelled'' \<and>
   status (calls (cancel (MarketOrder_init ''t'' ''aapl'' ''buy'' 10)) [Execute 100]) = ''filled''"
  by (simp add: calls_def cancel_def execute_def MarketOrder_init_def TradeOrder_init_def)

text \<open>
  C3, amended. For every order of any of the three classes and every sequence of
  \<open>cancel()\<close> and \<open>execute(p)\<close> calls: a filled order stays filled; a cancelled order
  ends cancelled or filled, stays cancelled when the sequence holds only \<open>cancel()\<close>
  calls, and stays cancelled when it is a base TradeOrder (which has no \<open>execute\<close>).
  Cancelled is left, for filled: a cancelled MarketOrder is filled after every sequence
  that holds an \<open>execute\<close> call, and a cancelled LimitOrder with limit \<open>L\<close> is filled
  by \<open>execute(p)\<close> exactly when its limit condition holds (\<open>p \<le> L\<close> on side BUY,
  \<open>p \<ge> L\<close> on side SELL) and stays cancelled otherwise. Filled is terminal;
  cancelled is left only by an \<open>execute\<close> that fills.
\<close>

theorem filled_terminal_cancelled_only_to_filled:
  "(status ord = ''filled'' \<longrightarrow> status (calls ord cs) = ''filled'') \<and>
   (status ord = ''cancelled'' \<longrightarrow>
      status (calls ord cs) = ''cancelled'' \<or> status (calls ord cs) = ''filled'') \<and>
   (status ord = ''cancelled'' \<and> set cs \<subseteq> {Cancel} \<longrightarrow>
      status (calls ord cs) = ''cancelled'') \<and>
   (status ord = ''cancelled'' \<and> order_class ord = TradeOrder_class \<longrightarrow>
      status (calls ord cs) = ''cancelled'') \<and>
   (status ord = ''cancelled'' \<and> order_class ord = MarketOrder_class \<and> Execute p \<in> set cs \<longrightarrow>
      status (calls ord cs) = ''filled'') \<and>
   (status ord = ''cancelled'' \<and> order_class ord = LimitOrder_class \<and> price ord = Some L \<and>
    side ord = ''BUY'' \<longrightarrow>
      status (calls ord [Execute p]) = (if p \<le> L then ''filled'' else ''cancelled'')) \<and>
   (status ord = ''cancelled'' \<and> order_class ord = LimitOrder_class \<and> price ord = Some L \<and>
    side ord = ''SELL'' \<longrightarrow>
      status (calls ord [Execute p]) = (if p \<ge> L then ''filled'' else ''cancelled''))"
proof (intro conjI impI)
  assume "status ord = ''filled''"
  then show "status (calls ord cs) = ''filled''" by (rule calls_filled)
next
  assume "status ord = ''cancelled''"
  then show "status (calls ord cs) = ''cancelled'' \<or> status (calls ord cs) = ''filled''"
    by (rule calls_cancelled)
next
  assume "status ord = ''cancelled'' \<and> set cs \<subseteq> {Cancel}"
  then show "status (calls ord cs) = ''cancelled''" by (simp add: calls_cancel_only)
next
  assume "status ord = ''cancelled'' \<and> order_class ord = TradeOrder_class"
  then show "status (calls ord cs) = ''cancelled''" by (simp add: calls_base_cancelled)
next
  assume "status ord = ''cancelled'' \<and> order_class ord = MarketOrder_class \<and> Execute p \<in> set cs"
  then show "status (calls ord cs) = ''filled''" by (blast intro: calls_market_execute)
next
  assume "status ord = ''cancelled'' \<and> order_class ord = LimitOrder_class \<and> price ord = Some L \<and>
          side ord = ''BUY''"
  then show "status (calls ord [Execute p]) = (if p \<le> L then ''filled'' else ''cancelled'')"
    by (simp add: calls_def call_limit_execute(1) del: call.simps)
next
  assume "status ord = ''cancelled'' \<and> order_class ord = LimitOrder_class \<and> price ord = Some L \<and>
          side ord = ''SELL''"
  then show "status (calls ord [Execute p]) = (if p \<ge> L then ''filled'' else ''cancelled'')"
    by (simp add: calls_def call_limit_execute(2) del: call.simps)
qed

theorem filled_terminal_cancelled_only_to_filled_witness:
  "status (calls ((LimitOrder_init ''t'' ''goog'' ''buy'' 10 (Some 150))\<lparr> status := ''filled'' \<rparr>)
             [Cancel, Execute 200, Execute 100, Cancel]) = ''filled'' \<and>
   status (calls (cancel (LimitOrder_init ''t'' ''goog'' ''buy'' 10 (Some 150)))
             [Cancel, Cancel]) = ''cancelled'' \<and>
   status (calls (cancel (TradeOrder_init ''t'' ''goog'' ''buy'' 10 ''market'' None))
             [Execute 100, Cancel]) = ''cancelled'' \<and>
   status (calls (cancel (MarketOrder_init ''t'' ''aapl'' ''buy'' 10))
             [Cancel, Execute 100, Cancel]) = ''filled'' \<and>
   status (calls (cancel (LimitOrder_init ''t'' ''goog'' ''buy'' 10 (Some 150)))
             [Execute 100]) = ''filled'' \<and>
   status (calls (cancel (LimitOrder_init ''t'' ''goog'' ''buy'' 10 (Some 150)))
             [Execute 200]) = ''cancelled'' \<and>
   status (calls (cancel (LimitOrder_init ''t'' ''tsla'' ''sell'' 5 (Some 200)))
             [Execute 201]) = ''filled'' \<and>
   status (calls (cancel (LimitOrder_init ''t'' ''tsla'' ''sell'' 5 (Some 200)))
             [Execute 199]) = ''cancelled''"
  using filled_terminal_cancelled_only_to_filled
          [of "(LimitOrder_init ''t'' ''goog'' ''buy'' 10 (Some 150))\<lparr> status := ''filled'' \<rparr>"
              "[Cancel, Execute 200, Execute 100, Cancel]"]
        filled_terminal_cancelled_only_to_filled
          [of "cancel (LimitOrder_init ''t'' ''goog'' ''buy'' 10 (Some 150))" "[Cancel, Cancel]"]
        filled_terminal_cancelled_only_to_filled
          [of "cancel (TradeOrder_init ''t'' ''goog'' ''buy'' 10 ''market'' None)"
              "[Execute 100, Cancel]"]
        filled_terminal_cancelled_only_to_filled
          [of "cancel (MarketOrder_init ''t'' ''aapl'' ''buy'' 10)"
              "[Cancel, Execute 100, Cancel]" 100]
        filled_terminal_cancelled_only_to_filled
          [where ord="cancel (LimitOrder_init ''t'' ''goog'' ''buy'' 10 (Some 150))" and L=150 and p=100]
        filled_terminal_cancelled_only_to_filled
          [where ord="cancel (LimitOrder_init ''t'' ''goog'' ''buy'' 10 (Some 150))" and L=150 and p=200]
        filled_terminal_cancelled_only_to_filled
          [where ord="cancel (LimitOrder_init ''t'' ''tsla'' ''sell'' 5 (Some 200))" and L=200 and p=201]
        filled_terminal_cancelled_only_to_filled
          [where ord="cancel (LimitOrder_init ''t'' ''tsla'' ''sell'' 5 (Some 200))" and L=200 and p=199]
  by (simp add: cancelled_orders_facts)

section \<open>The broker's ledger\<close>



text \<open>
  C4, as the specification states it, fails: the same MarketOrder submitted twice is
  already filled when the second call starts (no transition in that call), and the second
  call updates the ledger again: cash 98000 and position 20 after one order of 10.
\<close>

theorem submitOrder_twice_updates_twice:
  "status (snd (snd (submitOrder ''t'' MockBrokerConnector_init
       (single_store (MarketOrder_init ''t0'' ''aapl'' ''buy'' 10)) 0)) 0) = ''filled'' \<and>
   cash_balance (fst (snd (submitOrder ''t'' MockBrokerConnector_init
       (single_store (MarketOrder_init ''t0'' ''aapl'' ''buy'' 10)) 0))) = 99000 \<and>
   cash_balance (fst (snd (submitOrders MockBrokerConnector_init
       (single_store (MarketOrder_init ''t0'' ''aapl'' ''buy'' 10))
       [(''t'', 0), (''t2'', 0)]))) = 98000 \<and>
   positions (fst (snd (submitOrders MockBrokerConnector_init
       (single_store (MarketOrder_init ''t0'' ''aapl'' ''buy'' 10))
       [(''t'', 0), (''t2'', 0)]))) ''AAPL'' = Some 20"
proof -
  let ?o0 = "MarketOrder_init ''t0'' ''aapl'' ''buy'' 10"
  let ?ord = "?o0\<lparr> price := Some 100, status := ''filled'' \<rparr>"
  let ?b1 = "MockBrokerConnector_init \<lparr> order_history := [0], cash_balance := 99000,
       positions := [''AAPL'' \<mapsto> 10] \<rparr>"
  let ?st1 = "(single_store ?o0)(0 := ?ord)"
  have ex: "execute (?st1 0) (current_market_price ?b1) = Inr ?ord"
    by (simp add: execute_def MarketOrder_init_def TradeOrder_init_def
                  MockBrokerConnector_init_def)
  have f: "status ?ord = ''filled''" "side ?ord = ''BUY''" "price ?ord = Some 100"
    "symbol ?ord = ''AAPL''" "quantity ?ord = 10"
    by (simp_all add: MarketOrder_init_def TradeOrder_init_def upper_examples)
  from submitOrder_filled_buy [where st="?st1" and ident=0 and now="''t2''" and b="?b1",
         OF ex f(1-3)] f(4,5)
  have second: "submitOrder ''t2'' ?b1 ?st1 0 =
     (Inr (receipt_of ''t2'' 0 ?ord),
      MockBrokerConnector_init \<lparr> order_history := [0, 0], cash_balance := 98000,
        positions := [''AAPL'' \<mapsto> 20] \<rparr>, ?st1)"
    by (simp add: MockBrokerConnector_init_def dict_get_def)
  show ?thesis
    by (simp add: fresh_market_buy second)
qed

text \<open>
  C4, amended. Every \<open>submitOrder\<close> call, from any broker and store: when the call
  returns a receipt and the order's status after \<open>execute\<close> is filled, side BUY
  subtracts \<open>price * quantity\<close> from the cash and adds \<open>quantity\<close> to the position of
  the symbol (absent key read as 0), side SELL does the opposite, both fields in the same
  call; in every other case (the call raises, the order is not filled, or the side is
  neither BUY nor SELL) cash and positions are both unchanged. The test is the status
  after \<open>execute\<close>, not a transition: an order already filled when submitted updates
  the ledger again.
\<close>

theorem submitOrder_ledger_update:
  assumes "submitOrder now b st ident = (res, b', st')"
  shows "((\<exists>r. res = Inr r) \<and> status (st' ident) = ''filled'' \<and> side (st' ident) = ''BUY'' \<longrightarrow>
            (\<exists>pr. price (st' ident) = Some pr \<and>
               cash_balance b' = cash_balance b - pr * quantity (st' ident) \<and>
               positions b' = (positions b)
                 (symbol (st' ident) \<mapsto>
                    dict_get (positions b) (symbol (st' ident)) 0 + quantity (st' ident)))) \<and>
         ((\<exists>r. res = Inr r) \<and> status (st' ident) = ''filled'' \<and> side (st' ident) = ''SELL'' \<longrightarrow>
            (\<exists>pr. price (st' ident) = Some pr \<and>
               cash_balance b' = cash_balance b + pr * quantity (st' ident) \<and>
               positions b' = (positions b)
                 (symbol (st' ident) \<mapsto>
                    dict_get (positions b) (symbol (st' ident)) 0 - quantity (st' ident)))) \<and>
         (\<not> ((\<exists>r. res = Inr r) \<and> status (st' ident) = ''filled'' \<and>
              (side (st' ident) = ''BUY'' \<or> side (st' ident) = ''SELL'')) \<longrightarrow>
            cash_balance b' = cash_balance b \<and> positions b' = positions b)"
proof (cases res)
  case (Inl e)
  with assms have "cash_balance b' = cash_balance b \<and> positions b' = positions b"
    by (simp add: submitOrder_raised)
  with Inl show ?thesis by simp
next
  case (Inr r)
  with assms have "submitOrder now b st ident = (Inr r, b', st')" by simp
  from submitOrder_returned_ex [OF this] obtain ord where
    st': "st' = st(ident := ord)"
    and buy: "status ord = ''filled'' \<and> side ord = ''BUY'' \<longrightarrow>
           (\<exists>pr. price ord = Some pr \<and> cash_balance b' = cash_balance b - pr * quantity ord \<and>
              positions b' = (positions b)
                (symbol ord \<mapsto> dict_get (positions b) (symbol ord) 0 + quantity ord))"
    and sell: "status ord = ''filled'' \<and> side ord = ''SELL'' \<longrightarrow>
           (\<exists>pr. price ord = Some pr \<and> cash_balance b' = cash_balance b + pr * quantity ord \<and>
              positions b' = (positions b)
                (symbol ord \<mapsto> dict_get (positions b) (symbol ord) 0 - quantity ord))"
    and other: "\<not> (status ord = ''filled'' \<and> (side ord = ''BUY'' \<or> side ord = ''SELL'')) \<longrightarrow>
           cash_balance b' = cash_balance b \<and> positions b' = positions b"
    by blast
  from st' have cur: "st' ident = ord" by simp
  from buy sell other Inr show ?thesis unfolding cur by blast
qed

theorem submitOrder_ledger_update_witness:
  "cash_balance (fst (snd (submitOrder ''t'' MockBrokerConnector_init
       (single_store (MarketOrder_init ''t0'' ''aapl'' ''buy'' 10)) 0)))
     = cash_balance MockBrokerConnector_init - 100 * 10 \<and>
   positions (fst (snd (submitOrder ''t'' MockBrokerConnector_init
       (single_store (MarketOrder_init ''t0'' ''aapl'' ''buy'' 10)) 0)))
     = [''AAPL'' \<mapsto> 10] \<and>
   cash_balance (fst (snd (submitOrder ''t'' MockBrokerConnector_init
       (single_store (MarketOrder_init ''t0'' ''msft'' ''sell'' 5)) 0)))
     = cash_balance MockBrokerConnector_init + 100 * 5 \<and>
   cash_balance (fst (snd (submitOrder ''t'' MockBrokerConnector_init
       (single_store (LimitOrder_init ''t0'' ''tsla'' ''buy'' 10 (Some 95))) 0)))
     = cash_balance MockBrokerConnector_init \<and>
   positions (fst (snd (submitOrder ''t'' MockBrokerConnector_init
       (single_store (LimitOrder_init ''t0'' ''tsla'' ''buy'' 10 (Some 95))) 0)))
     = positions MockBrokerConnector_init"
  using submitOrder_ledger_update [OF fresh_market_buy]
        submitOrder_ledger_update [OF fresh_market_sell]
        submitOrder_ledger_update [OF fresh_limit_pending]
  by (simp add: fresh_market_buy fresh_market_sell fresh_limit_pending)
     (simp add: MockBrokerConnector_init_def)

text \<open>
  C5, as the specification states it, fails: a LimitOrder cancelled before it is
  submitted, with its limit not met, does not end filled, and the receipt reports the
  status cancelled, not pending.
\<close>

theorem cancelled_limit_receipt_cancelled:
  "fst (submitOrder ''t'' MockBrokerConnector_init
         (single_store (cancel (LimitOrder_init ''t0'' ''tsla'' ''buy'' 10 (Some 95)))) 0)
     = Inr (receipt_of ''t'' 0 (cancel (LimitOrder_init ''t0'' ''tsla'' ''buy'' 10 (Some 95)))) \<and>
   receipt_status (receipt_of ''t'' 0 (cancel (LimitOrder_init ''t0'' ''tsla'' ''buy'' 10 (Some 95))))
     = ''cancelled'' \<and>
   status (snd (snd (submitOrder ''t'' MockBrokerConnector_init
         (single_store (cancel (LimitOrder_init ''t0'' ''tsla'' ''buy'' 10 (Some 95)))) 0)) 0)
     = ''cancelled''"
  by (simp add: fresh_limit_cancelled receipt_of_def OrderReceipt_init_def
                cancelled_limit_buy_95_facts single_store_def)

text \<open>
  C5, amended. Every \<open>submitOrder\<close> call that returns a receipt and leaves the order
  not filled: cash and positions are unchanged, the order is appended to
  \<open>order_history\<close>, the order itself is unchanged, and the receipt has executed
  quantity 0, executed price \<open>None\<close> and the status of the order as it was submitted:
  pending for an order submitted pending (cancelled for one cancelled before).
\<close>

theorem submitOrder_unfilled_frame:
  assumes "submitOrder now b st ident = (Inr r, b', st')" and "status (st' ident) \<noteq> ''filled''"
  shows "cash_balance b' = cash_balance b \<and> positions b' = positions b \<and>
         order_history b' = order_history b @ [ident] \<and>
         executed_quantity r = 0 \<and> executed_price r = None \<and>
         receipt_status r = status (st ident) \<and> st' = st \<and>
         (status (st ident) = ''pending'' \<longrightarrow> receipt_status r = ''pending'')"
proof -
  from submitOrder_returned_ex [OF assms(1)] obtain ord where
    ex: "execute (st ident) (current_market_price b) = Inr ord"
    and st': "st' = st(ident := ord)" and r: "r = receipt_of now ident ord"
    and hist: "order_history b' = order_history b @ [ident]"
    and other: "\<not> (status ord = ''filled'' \<and> (side ord = ''BUY'' \<or> side ord = ''SELL'')) \<longrightarrow>
           cash_balance b' = cash_balance b \<and> positions b' = positions b"
    by blast
  from st' assms(2) have nf: "status ord \<noteq> ''filled''" by simp
  from execute_unfilled_same [OF ex nf] have same: "ord = st ident" .
  with st' have "st' = st" by simp
  moreover from r nf same have "executed_quantity r = 0" "executed_price r = None"
    "receipt_status r = status (st ident)"
    by (simp_all add: receipt_of_def OrderReceipt_init_def)
  ultimately show ?thesis using other nf hist by simp
qed

theorem submitOrder_unfilled_frame_witness:
  "fst (submitOrder ''t'' MockBrokerConnector_init
         (single_store (LimitOrder_init ''t0'' ''tsla'' ''buy'' 10 (Some 95))) 0)
     = Inr (receipt_of ''t'' 0 (LimitOrder_init ''t0'' ''tsla'' ''buy'' 10 (Some 95))) \<and>
   cash_balance (fst (snd (submitOrder ''t'' MockBrokerConnector_init
         (single_store (LimitOrder_init ''t0'' ''tsla'' ''buy'' 10 (Some 95))) 0))) = 100000 \<and>
   positions (fst (snd (submitOrder ''t'' MockBrokerConnector_init
         (single_store (LimitOrder_init ''t0'' ''tsla'' ''buy'' 10 (Some 95))) 0))) = Map.empty \<and>
   order_history (fst (snd (submitOrder ''t'' MockBrokerConnector_init
         (single_store (LimitOrder_init ''t0'' ''tsla'' ''buy'' 10 (Some 95))) 0))) = [0] \<and>
   executed_quantity (receipt_of ''t'' 0 (LimitOrder_init ''t0'' ''tsla'' ''buy'' 10 (Some 95))) = 0 \<and>
   executed_price (receipt_of ''t'' 0 (LimitOrder_init ''t0'' ''tsla'' ''buy'' 10 (Some 95))) = None \<and>
   receipt_status (receipt_of ''t'' 0 (LimitOrder_init ''t0'' ''tsla'' ''buy'' 10 (Some 95)))
     = ''pending''"
  using submitOrder_unfilled_frame [OF fresh_limit_pending]
  by (simp add: fresh_limit_pending limit_buy_95_facts single_store_def)
     (simp add: MockBrokerConnector_init_def)

section \<open>Market data queries: validation and the synthetic series\<close>

text \<open>
  C7. Both date strings parse (to \<open>sd\<close> and \<open>ed\<close>). Then the constructor raises a
  \<open>ValueError\<close> iff \<open>sd > ed\<close> or the frequency is not one of the 13 codes, whatever
  the source; and with \<open>sd \<le> ed\<close> and one of the 13 codes it returns the query with
  the fields as given.
\<close>

theorem MarketDataQuery_init_validation:
  fixes lib :: "('d::linorder, 't) library"
  assumes "strptime lib start_str ''%Y-%m-%d'' = Inr sd"
    and "strptime lib end_str ''%Y-%m-%d'' = Inr ed"
  shows "((\<exists>msg. MarketDataQuery_init lib symb tf start_str end_str freq src
                   = Inl (ValueError msg)) \<longleftrightarrow>
            sd > ed \<or>
            freq \<notin> {''1m'', ''2m'', ''5m'', ''15m'', ''30m'', ''60m'', ''90m'', ''1h'', ''1d'',
                     ''5d'', ''1wk'', ''1mo'', ''3mo''}) \<and>
         (sd \<le> ed \<and>
          freq \<in> {''1m'', ''2m'', ''5m'', ''15m'', ''30m'', ''60m'', ''90m'', ''1h'', ''1d'',
                   ''5d'', ''1wk'', ''1mo'', ''3mo''} \<longrightarrow>
            MarketDataQuery_init lib symb tf start_str end_str freq src =
              Inr \<lparr> query_symbol = symb, time_frame = tf, start_date = sd, end_date = ed,
                    frequency = freq, source = src \<rparr>)"
proof -
  let ?q = "\<lparr> query_symbol = symb, time_frame = tf, start_date = sd, end_date = ed,
              frequency = freq, source = src \<rparr>"
  note init = init_parsed [OF assms, of symb tf freq src]
  show ?thesis
  proof (cases "sd \<le> ed \<and> freq \<in> set valid_frequencies")
    case True
    then have "validate ?q = Inr ()" by (simp add: validate_ok)
    with init True show ?thesis by (simp add: valid_frequencies_set not_less)
  next
    case False
    then have "validate ?q \<noteq> Inr ()" by (simp add: validate_ok)
    then obtain e where e: "validate ?q = Inl e" by (cases "validate ?q") auto
    from validate_error [OF e] obtain msg where "e = ValueError msg" ..
    with e init have "MarketDataQuery_init lib symb tf start_str end_str freq src
                        = Inl (ValueError msg)" by simp
    with False show ?thesis unfolding valid_frequencies_set by auto
  qed
qed

theorem MarketDataQuery_init_validation_witness:
  "MarketDataQuery_init january_2023 ''TEST'' ''D1'' ''2023-01-01'' ''2023-01-05'' ''1d'' ''bloomberg''
     = Inr \<lparr> query_symbol = ''TEST'', time_frame = ''D1'', start_date = 1, end_date = 5,
             frequency = ''1d'', source = ''bloomberg'' \<rparr> \<and>
   (\<exists>msg. MarketDataQuery_init january_2023 ''TEST'' ''D1'' ''2023-01-05'' ''2023-01-01'' ''1d''
             ''yahoo'' = Inl (ValueError msg)) \<and>
   (\<exists>msg. MarketDataQuery_init january_2023 ''TEST'' ''D1'' ''2023-01-01'' ''2023-01-05''
             ''yearly'' ''test'' = Inl (ValueError msg))"
  using MarketDataQuery_init_validation
          [OF january_parse(1) january_parse(2), of "''TEST''" "''D1''" "''1d''" "''bloomberg''"]
        MarketDataQuery_init_validation
          [OF january_parse(2) january_parse(1), of "''TEST''" "''D1''" "''1d''" "''yahoo''"]
        MarketDataQuery_init_validation
          [OF january_parse(1) january_parse(2), of "''TEST''" "''D1''" "''yearly''" "''test''"]
  by simp



text \<open>
  C10. The keys of the frequency-to-alias map are the 13 codes the validator accepts, in
  the same order, and no alias is empty. So for a query that the constructor accepted,
  on the test-source path the lookup finds a non-empty alias, \<open>fetch\<close> returns the
  synthetic table, and the error "Test source does not support frequency" is not raised.
\<close>

theorem fetch_test_frequency_supported:
  fixes lib :: "('d::linorder, 't) library"
  shows "map fst freq_map = valid_frequencies \<and>
         [] \<notin> set (map snd freq_map) \<and>
         (MarketDataQuery_init lib symb tf start_str end_str freq src = Inr q \<and>
          source q = ''test'' \<longrightarrow>
            (\<exists>pd_freq. map_of freq_map (frequency q) = Some pd_freq \<and> pd_freq \<noteq> []) \<and>
            (\<exists>df. fetch lib q = Inr (Synthetic df)) \<and>
            fetch lib q \<noteq>
              Inl (ValueError ''Test source does not support frequency: {self.frequency}''))"
proof -
  have "(\<exists>pd_freq. map_of freq_map (frequency q) = Some pd_freq \<and> pd_freq \<noteq> []) \<and>
        (\<exists>df. fetch lib q = Inr (Synthetic df)) \<and>
        fetch lib q \<noteq>
          Inl (ValueError ''Test source does not support frequency: {self.frequency}'')"
    if i: "MarketDataQuery_init lib symb tf start_str end_str freq src = Inr q"
      and s: "source q = ''test''"
  proof -
    from init_valid [OF i] have v: "start_date q \<le> end_date q"
      "frequency q \<in> set valid_frequencies" by blast+
    from freq_map_lookup [OF v(2)] obtain a where
      a: "map_of freq_map (frequency q) = Some a" "a \<noteq> []" by blast
    from fetch_test [OF s a v(1), of lib] a show ?thesis by auto
  qed
  with freq_map_keys freq_map_aliases show ?thesis by blast
qed

theorem fetch_test_frequency_supported_witness:
  "(\<exists>pd_freq. map_of freq_map ''1d'' = Some pd_freq \<and> pd_freq \<noteq> []) \<and>
   (\<exists>df. fetch january_2023
           \<lparr> query_symbol = ''TEST'', time_frame = ''D1'', start_date = 1, end_date = 5,
             frequency = ''1d'', source = ''test'' \<rparr> = Inr (Synthetic df)) \<and>
   fetch january_2023
     \<lparr> query_symbol = ''TEST'', time_frame = ''D1'', start_date = 1, end_date = 5,
       frequency = ''1d'', source = ''test'' \<rparr>
     \<noteq> Inl (ValueError ''Test source does not support frequency: {self.frequency}'')"
  using fetch_test_frequency_supported
          [of january_2023 "''TEST''" "''D1''" "''2023-01-01''" "''2023-01-05''" "''1d''" "''test''"
              "\<lparr> query_symbol = ''TEST'', time_frame = ''D1'', start_date = 1, end_date = 5,
                 frequency = ''1d'', source = ''test'' \<rparr>"]
  by (simp add: january_query)

end
